theory Spec2Isabelle
  imports Complex_Main
begin

section \<open>The camera session controller (class CameraController)\<close>

text \<open>
  The Swift class \<open>CameraController\<close> of \<open>src/src/definitions.ts\<close> is embedded as a
  record of its stored properties; every method becomes a function from the controller
  before the call to the controller after it. A method marked \<open>throws\<close> returns the
  thrown error (or \<open>None\<close>) together with the controller, since the assignments made
  before a \<open>throw\<close> stay in place.

  Objects that the controller only references are kept in an explicit store:
  \<open>frontCamera\<close>, \<open>rearCamera\<close> and \<open>currentCamera\<close> hold device identifiers, and
  \<open>devices\<close> maps an identifier to the state of that \<open>AVCaptureDevice\<close>, so that a
  write through \<open>currentCamera\<close> is seen through \<open>rearCamera\<close> as well.
  \<open>CGFloat\<close> and \<open>Float\<close> values are modelled as real numbers.
\<close>

subsection \<open>Enumerations\<close>

text \<open>
  \<open>CameraControllerError\<close> (lines 123-130). A method can also rethrow an error raised by
  AVFoundation itself (\<open>try cameraDevice.lockForConfiguration()\<close>,
  \<open>try AVCaptureDeviceInput(device:)\<close>); that foreign error is the last constructor.
\<close>

datatype CameraControllerError =
    captureSessionAlreadyRunning
  | captureSessionIsMissing
  | inputsAreInvalid
  | invalidOperation
  | noCamerasAvailable
  | unknown
  | avFoundationError

datatype CameraPosition = front | rear

datatype DevicePosition = position_front | position_back | position_unspecified

datatype DeviceType = builtInTripleCamera | builtInWideAngleCamera

datatype FlashMode = flash_off | flash_on | flash_auto

datatype TorchMode = torch_off | torch_on | torch_auto

datatype FocusMode = focus_locked | autoFocus | continuousAutoFocus

datatype ExposureMode = exposure_locked | autoExpose | continuousAutoExposure | exposure_custom

datatype WhiteBalanceMode = wb_locked | autoWhiteBalance | continuousAutoWhiteBalance

datatype SessionPreset = preset_high | preset_photo

datatype GestureState =
  gesture_possible | began | changed | ended | gesture_cancelled | gesture_failed

subsection \<open>Hardware objects\<close>

type_synonym device_id = nat

type_synonym completion = nat

type_synonym image = nat

text \<open>
  The part of an \<open>AVCaptureDevice\<close> that the controller reads or writes. The last three
  fields are the answers of the hardware to calls whose outcome the controller does not
  decide: whether \<open>lockForConfiguration()\<close> returns, whether
  \<open>AVCaptureDeviceInput(device:)\<close> returns, and what \<open>canAddInput\<close> says for an input of
  this device.
\<close>

record AVCaptureDevice =
  deviceType :: DeviceType
  position :: DevicePosition
  videoZoomFactor :: real
  videoMaxZoomFactor :: real
  supportedSizes :: "(real \<times> real) list"
  focusMode :: FocusMode
  continuousAutoFocusSupported :: bool
  exposureMode :: ExposureMode
  continuousAutoExposureSupported :: bool
  exposureTargetBias :: real
  minExposureTargetBias :: real
  maxExposureTargetBias :: real
  whiteBalanceMode :: WhiteBalanceMode
  supportedWhiteBalanceModes :: "WhiteBalanceMode list"
  hasFlash :: bool
  hasTorch :: bool
  isTorchAvailable :: bool
  torchMode :: TorchMode
  lockSucceeds :: bool
  inputCreatable :: bool
  canAddInput :: bool

text \<open>
  An \<open>AVCaptureSession\<close>. An input is identified with the device it wraps; the session
  counts the \<open>beginConfiguration\<close> calls that no \<open>commitConfiguration\<close> has closed yet.
\<close>

record AVCaptureSession =
  isRunning :: bool
  inputs :: "device_id list"
  photoOutputAdded :: bool
  sessionPreset :: SessionPreset
  openConfigurations :: nat

text \<open>
  The \<open>AVCapturePhotoOutput\<close>; \<open>captureRequests\<close> lists the flash mode of the settings of
  every \<open>capturePhoto(with:delegate:)\<close> issued so far, oldest first.
\<close>

record AVCapturePhotoOutput =
  supportedFlashModes :: "FlashMode list"
  isHighResolutionCaptureEnabled :: bool
  photoSettingsForSceneMonitoring :: "FlashMode option"
  captureRequests :: "FlashMode list"

text \<open>
  What \<open>AVCaptureDevice.default(_:for:position:)\<close> finds on this phone, and what the
  session answers to \<open>canAddOutput\<close>.
\<close>

record Hardware =
  defaultTripleBack :: "device_id option"
  defaultWideBack :: "device_id option"
  defaultWideFront :: "device_id option"
  canAddOutput :: bool

subsection \<open>The controller\<close>

text \<open>
  Stored properties of \<open>CameraController\<close> (lines 158-174). The controller's own
  \<open>videoZoomFactor\<close> is named \<open>controllerZoomFactor\<close> here, the device's property keeps
  the name. A completion closure is identified by a number, and \<open>fulfilled\<close> records every
  invocation of a completion closure with its two arguments, oldest first.
\<close>

record CameraController =
  captureSession :: "AVCaptureSession option"
  photoOutput :: AVCapturePhotoOutput
  photoCaptureCompletionBlock :: "completion option"
  sampleBufferCaptureCompletionBlock :: "completion option"
  frontCamera :: "device_id option"
  rearCamera :: "device_id option"
  currentCamera :: "device_id option"
  cameraInput :: "device_id option"
  flashMode :: FlashMode
  controllerZoomFactor :: real
  devices :: "device_id \<Rightarrow> AVCaptureDevice"
  fulfilled :: "(completion \<times> image option \<times> CameraControllerError option) list"

definition newSession :: "bool \<Rightarrow> AVCaptureSession" where
  "newSession isHighResolutionPhotoEnabled =
     \<lparr>isRunning = False, inputs = [], photoOutputAdded = False,
      sessionPreset = (if isHighResolutionPhotoEnabled then preset_photo else preset_high),
      openConfigurations = 0\<rparr>"

text \<open>Invoking a completion closure: \<open>completion(image, error)\<close>.\<close>

definition invoke ::
  "completion \<Rightarrow> image option \<Rightarrow> CameraControllerError option \<Rightarrow> CameraController \<Rightarrow> CameraController" where
  "invoke c img err s = s\<lparr>fulfilled := fulfilled s @ [(c, img, err)]\<rparr>"

text \<open>Invoking an optional closure: \<open>block?(image, error)\<close> does nothing when the block is nil.\<close>

definition invokeOptional ::
  "completion option \<Rightarrow> image option \<Rightarrow> CameraControllerError option \<Rightarrow> CameraController \<Rightarrow> CameraController" where
  "invokeOptional blk img err s = (case blk of None \<Rightarrow> s | Some c \<Rightarrow> invoke c img err s)"

text \<open>
  The guard \<open>guard let captureSession = self.captureSession, captureSession.isRunning\<close>
  of \<open>switchCameras\<close>, \<open>captureImage\<close> and \<open>captureSample\<close>.
\<close>

definition runningSession :: "CameraController \<Rightarrow> AVCaptureSession option" where
  "runningSession s =
     (case captureSession s of
        None \<Rightarrow> None
      | Some cs \<Rightarrow> if isRunning cs then Some cs else None)"

subsection \<open>Session lifecycle\<close>

text \<open>
  The value assigned to \<open>self.rearCamera\<close> in lines 232-236: the triple camera when the
  phone has one, the wide-angle camera (or nil) otherwise.
\<close>

definition defaultRearCamera :: "Hardware \<Rightarrow> device_id option" where
  "defaultRearCamera hw =
     (case defaultTripleBack hw of
        Some r \<Rightarrow> Some r
      | None \<Rightarrow> defaultWideBack hw)"

text \<open>
  \<open>initializeCameraDevices(forPosition:)\<close>, lines 231-247. \<open>self.frontCamera\<close> is
  assigned only when a front camera is found.
\<close>

definition initializeCameraDevices ::
  "Hardware \<Rightarrow> CameraPosition \<Rightarrow> CameraController \<Rightarrow> CameraControllerError option \<times> CameraController" where
  "initializeCameraDevices hw cameraPosition s =
     (let s1 = s\<lparr>rearCamera := defaultRearCamera hw\<rparr>;
          s2 = (case defaultWideFront hw of
                  Some f \<Rightarrow> s1\<lparr>frontCamera := Some f\<rparr>
                | None \<Rightarrow> s1)
      in if (cameraPosition = rear \<and> rearCamera s2 \<noteq> None)
            \<or> (cameraPosition = front \<and> frontCamera s2 \<noteq> None)
         then (None, s2\<lparr>currentCamera :=
                           (if cameraPosition = rear then rearCamera s2 else frontCamera s2)\<rparr>)
         else (Some noCamerasAvailable, s2))"

text \<open>\<open>configureCameraSettings()\<close>, lines 253-275.\<close>

definition configureCameraSettings ::
  "CameraController \<Rightarrow> CameraControllerError option \<times> CameraController" where
  "configureCameraSettings s =
     (case currentCamera s of
        None \<Rightarrow> (Some noCamerasAvailable, s)
      | Some cam \<Rightarrow>
          (let cameraDevice = devices s cam in
           if lockSucceeds cameraDevice then
             (let d1 = (if continuousAutoFocusSupported cameraDevice
                        then cameraDevice\<lparr>focusMode := continuousAutoFocus\<rparr>
                        else cameraDevice);
                  d2 = (if continuousAutoExposureSupported d1
                        then d1\<lparr>exposureMode := continuousAutoExposure\<rparr>
                        else d1);
                  d3 = (if deviceType d2 = builtInTripleCamera
                        then d2\<lparr>videoZoomFactor := 2\<rparr>
                        else d2)
              in (None, s\<lparr>devices := (devices s)(cam := d3)\<rparr>))
           else (Some avFoundationError, s)))"

text \<open>\<open>initializeCameraInput()\<close>, lines 280-294.\<close>

definition initializeCameraInput ::
  "CameraController \<Rightarrow> CameraControllerError option \<times> CameraController" where
  "initializeCameraInput s =
     (case captureSession s of
        None \<Rightarrow> (Some captureSessionIsMissing, s)
      | Some cs \<Rightarrow>
          (case currentCamera s of
             None \<Rightarrow> (Some noCamerasAvailable, s)
           | Some camera \<Rightarrow>
               if inputCreatable (devices s camera) then
                 (None,
                  s\<lparr>captureSession :=
                      Some (if canAddInput (devices s camera)
                            then cs\<lparr>inputs := inputs cs @ [camera]\<rparr>
                            else cs),
                    cameraInput := Some camera\<rparr>)
               else (Some noCamerasAvailable, s)))"

text \<open>
  The tail of \<open>prepare\<close> after both initialisations have returned (lines 198-214): the
  photo output is configured and added, the session starts, the baseline configuration is
  applied, and the completion handler receives what \<open>configureCameraSettings\<close> threw.
\<close>

definition startOutput ::
  "Hardware \<Rightarrow> bool \<Rightarrow> CameraController \<Rightarrow> CameraControllerError option \<times> CameraController" where
  "startOutput hw isHighResolutionPhotoEnabled s =
     (let s1 = s\<lparr>photoOutput :=
                   (photoOutput s)\<lparr>isHighResolutionCaptureEnabled := isHighResolutionPhotoEnabled\<rparr>\<rparr>;
          s2 = s1\<lparr>captureSession :=
                   map_option
                     (\<lambda>cs. (if canAddOutput hw then cs\<lparr>photoOutputAdded := True\<rparr> else cs)
                              \<lparr>isRunning := True\<rparr>)
                     (captureSession s1)\<rparr>
      in configureCameraSettings s2)"

text \<open>
  \<open>prepare(cameraPosition:enableHighResolution:completionHandler:)\<close>, lines 176-215. The
  completion handler is called exactly once on every path; its argument is the first
  component of the result.
\<close>

definition prepare ::
  "Hardware \<Rightarrow> CameraPosition option \<Rightarrow> bool \<Rightarrow> CameraController
     \<Rightarrow> CameraControllerError option \<times> CameraController" where
  "prepare hw cameraPosition isHighResolutionPhotoEnabled s =
     (let s1 = s\<lparr>captureSession := Some (newSession isHighResolutionPhotoEnabled)\<rparr>;
          (e1, s2) = initializeCameraDevices hw
                       (case cameraPosition of None \<Rightarrow> rear | Some p \<Rightarrow> p) s1
      in case e1 of
           Some e \<Rightarrow> (Some e, s2)
         | None \<Rightarrow>
             (let (e2, s3) = initializeCameraInput s2
              in case e2 of
                   Some e \<Rightarrow> (Some e, s3)
                 | None \<Rightarrow> startOutput hw isHighResolutionPhotoEnabled s3))"

text \<open>\<open>stop()\<close>, lines 217-219: \<open>self.captureSession?.stopRunning()\<close>.\<close>

definition stop :: "CameraController \<Rightarrow> CameraController" where
  "stop s = s\<lparr>captureSession := map_option (\<lambda>cs. cs\<lparr>isRunning := False\<rparr>) (captureSession s)\<rparr>"

subsection \<open>Capture\<close>

text \<open>\<open>captureImage(completion:)\<close>, lines 389-400.\<close>

definition captureImage :: "completion \<Rightarrow> CameraController \<Rightarrow> CameraController" where
  "captureImage completion s =
     (case runningSession s of
        None \<Rightarrow> invoke completion None (Some captureSessionIsMissing) s
      | Some cs \<Rightarrow>
          s\<lparr>photoOutput :=
              (photoOutput s)\<lparr>captureRequests :=
                                captureRequests (photoOutput s) @ [flashMode s]\<rparr>,
            photoCaptureCompletionBlock := Some completion\<rparr>)"

text \<open>\<open>captureSample(completion:)\<close>, lines 402-409.\<close>

definition captureSample :: "completion \<Rightarrow> CameraController \<Rightarrow> CameraController" where
  "captureSample completion s =
     (case runningSession s of
        None \<Rightarrow> invoke completion None (Some captureSessionIsMissing) s
      | Some cs \<Rightarrow> s\<lparr>sampleBufferCaptureCompletionBlock := Some completion\<rparr>)"

subsection \<open>Switching cameras\<close>

text \<open>\<open>captureSession.beginConfiguration()\<close> and \<open>captureSession.commitConfiguration()\<close>.\<close>

definition beginConfiguration :: "AVCaptureSession \<Rightarrow> AVCaptureSession" where
  "beginConfiguration cs = cs\<lparr>openConfigurations := openConfigurations cs + 1\<rparr>"

definition commitConfiguration :: "AVCaptureSession \<Rightarrow> AVCaptureSession" where
  "commitConfiguration cs = cs\<lparr>openConfigurations := openConfigurations cs - 1\<rparr>"

definition onSession :: "(AVCaptureSession \<Rightarrow> AVCaptureSession) \<Rightarrow> CameraController \<Rightarrow> CameraController" where
  "onSession f s = s\<lparr>captureSession := map_option f (captureSession s)\<rparr>"

text \<open>
  The nested function \<open>switchToFrontCamera()\<close>, lines 338-353. The local
  \<open>captureSession\<close> it captures is the controller's session, bound by the guard of
  \<open>switchCameras\<close>. \<open>try AVCaptureDeviceInput\<close> rethrows the error of AVFoundation; the
  old input has been removed by then.
\<close>

definition switchToFrontCamera ::
  "CameraController \<Rightarrow> CameraControllerError option \<times> CameraController" where
  "switchToFrontCamera s =
     (case (cameraInput s, captureSession s, frontCamera s) of
        (Some ci, Some cs, Some fc) \<Rightarrow>
          if ci \<in> set (inputs cs) then
            (let removed = cs\<lparr>inputs := remove1 ci (inputs cs)\<rparr> in
             if inputCreatable (devices s fc) then
               (if canAddInput (devices s fc)
                then (None, s\<lparr>captureSession := Some (removed\<lparr>inputs := inputs removed @ [fc]\<rparr>),
                               cameraInput := Some fc,
                               currentCamera := Some fc\<rparr>)
                else (Some invalidOperation, s\<lparr>captureSession := Some removed\<rparr>))
             else (Some avFoundationError, s\<lparr>captureSession := Some removed\<rparr>))
          else (Some invalidOperation, s)
      | _ \<Rightarrow> (Some invalidOperation, s))"

text \<open>The nested function \<open>switchToRearCamera()\<close>, lines 355-370.\<close>

definition switchToRearCamera ::
  "CameraController \<Rightarrow> CameraControllerError option \<times> CameraController" where
  "switchToRearCamera s =
     (case (cameraInput s, captureSession s, rearCamera s) of
        (Some ci, Some cs, Some rc) \<Rightarrow>
          if ci \<in> set (inputs cs) then
            (let removed = cs\<lparr>inputs := remove1 ci (inputs cs)\<rparr> in
             if inputCreatable (devices s rc) then
               (if canAddInput (devices s rc)
                then (None, s\<lparr>captureSession := Some (removed\<lparr>inputs := inputs removed @ [rc]\<rparr>),
                               cameraInput := Some rc,
                               currentCamera := Some rc\<rparr>)
                else (Some invalidOperation, s\<lparr>captureSession := Some removed\<rparr>))
             else (Some avFoundationError, s\<lparr>captureSession := Some removed\<rparr>))
          else (Some invalidOperation, s)
      | _ \<Rightarrow> (Some invalidOperation, s))"

text \<open>
  The end of \<open>switchCameras\<close>, lines 383-386: \<open>try? self.configureCameraSettings()\<close>
  discards a thrown error, then the configuration is committed.
\<close>

definition reconfigureAndCommit :: "CameraController \<Rightarrow> CameraController" where
  "reconfigureAndCommit s = onSession commitConfiguration (snd (configureCameraSettings s))"

text \<open>\<open>switchCameras()\<close>, lines 331-387.\<close>

definition switchCameras ::
  "CameraController \<Rightarrow> CameraControllerError option \<times> CameraController" where
  "switchCameras s =
     (case runningSession s of
        None \<Rightarrow> (Some captureSessionIsMissing, s)
      | Some cs \<Rightarrow>
          (case currentCamera s of
             None \<Rightarrow> (Some noCamerasAvailable, s)
           | Some device \<Rightarrow>
               (let s1 = onSession beginConfiguration s in
                case position (devices s1 device) of
                  position_front \<Rightarrow>
                    (case switchToRearCamera s1 of
                       (Some e, s2) \<Rightarrow> (Some e, s2)
                     | (None, s2) \<Rightarrow> (None, reconfigureAndCommit s2))
                | position_back \<Rightarrow>
                    (case switchToFrontCamera s1 of
                       (Some e, s2) \<Rightarrow> (Some e, s2)
                     | (None, s2) \<Rightarrow> (None, reconfigureAndCommit s2))
                | position_unspecified \<Rightarrow> (None, s1))))"

subsection \<open>The photo delegate\<close>

text \<open>
  \<open>photoOutput(_:didFinishProcessingPhoto:error:)\<close>, lines 548-560. \<open>photo\<close> is the
  \<open>UIImage\<close> decoded from the photo's file data, \<open>None\<close> when there is no data or it does
  not decode. \<open>fixedOrientation\<close> is an extension of \<open>UIImage\<close> declared outside this
  file and is a parameter.
\<close>

definition photoOutput_didFinishProcessingPhoto ::
  "(image \<Rightarrow> image) \<Rightarrow> image option \<Rightarrow> CameraControllerError option \<Rightarrow> CameraController
     \<Rightarrow> CameraController" where
  "photoOutput_didFinishProcessingPhoto fixedOrientation photo error s =
     (case error of
        Some e \<Rightarrow> invokeOptional (photoCaptureCompletionBlock s) None (Some e) s
      | None \<Rightarrow>
          (case photo of
             None \<Rightarrow> invokeOptional (photoCaptureCompletionBlock s) None (Some unknown) s
           | Some img \<Rightarrow>
               invokeOptional (photoCaptureCompletionBlock s) (Some (fixedOrientation img)) None s))"

text \<open>
  The two arguments that the delegate passes to the completion block, as the three
  \<open>return\<close> paths of lines 549-559 compute them.
\<close>

definition deliveredResult ::
  "(image \<Rightarrow> image) \<Rightarrow> image option \<Rightarrow> CameraControllerError option
     \<Rightarrow> image option \<times> CameraControllerError option" where
  "deliveredResult fixedOrientation photo error =
     (case error of
        Some e \<Rightarrow> (None, Some e)
      | None \<Rightarrow>
          (case photo of
             None \<Rightarrow> (None, Some unknown)
           | Some img \<Rightarrow> (Some (fixedOrientation img), None)))"

subsection \<open>Getters\<close>

text \<open>
  Lines 411-444. These methods are not marked \<open>throws\<close>: each returns a value on every
  path. \<open>rawValue\<close> of the two mode enumerations is declared outside this file and is a
  parameter.
\<close>

definition getSupportedPictureSizes :: "CameraController \<Rightarrow> (string \<times> real) list list" where
  "getSupportedPictureSizes s =
     (case currentCamera s of
        None \<Rightarrow> []
      | Some device \<Rightarrow>
          map (\<lambda>(w, h). [(''width'', w), (''height'', h)]) (supportedSizes (devices s device)))"

definition getExposureCompensation :: "CameraController \<Rightarrow> real" where
  "getExposureCompensation s =
     (case currentCamera s of
        None \<Rightarrow> 0
      | Some device \<Rightarrow> exposureTargetBias (devices s device))"

definition getExposureCompensationRange :: "CameraController \<Rightarrow> real list" where
  "getExposureCompensationRange s =
     (case currentCamera s of
        None \<Rightarrow> [0, 0]
      | Some device \<Rightarrow>
          [minExposureTargetBias (devices s device), maxExposureTargetBias (devices s device)])"

definition getExposureMode :: "(ExposureMode \<Rightarrow> string) \<Rightarrow> CameraController \<Rightarrow> string" where
  "getExposureMode rawValue s =
     (case currentCamera s of
        None \<Rightarrow> ''unknown''
      | Some device \<Rightarrow> rawValue (exposureMode (devices s device)))"

definition getWhiteBalanceMode :: "(WhiteBalanceMode \<Rightarrow> string) \<Rightarrow> CameraController \<Rightarrow> string" where
  "getWhiteBalanceMode rawValue s =
     (case currentCamera s of
        None \<Rightarrow> ''unknown''
      | Some device \<Rightarrow> rawValue (whiteBalanceMode (devices s device)))"

definition getSupportedWhiteBalanceModes ::
  "(WhiteBalanceMode \<Rightarrow> string) \<Rightarrow> CameraController \<Rightarrow> string list" where
  "getSupportedWhiteBalanceModes rawValue s =
     (case currentCamera s of
        None \<Rightarrow> []
      | Some device \<Rightarrow> map rawValue (supportedWhiteBalanceModes (devices s device)))"

text \<open>The \<open>switch\<close> inside the loop of \<open>getSupportedFlashModes\<close>, lines 453-463.\<close>

definition flashModeValue :: "FlashMode \<Rightarrow> string option" where
  "flashModeValue m =
     (case m of
        flash_off \<Rightarrow> Some ''off''
      | flash_on \<Rightarrow> Some ''on''
      | flash_auto \<Rightarrow> Some ''auto'')"

text \<open>\<open>getSupportedFlashModes()\<close>, lines 447-476, the one getter marked \<open>throws\<close>.\<close>

definition getSupportedFlashModes :: "CameraController \<Rightarrow> CameraControllerError + string list" where
  "getSupportedFlashModes s =
     (case currentCamera s of
        None \<Rightarrow> Inl noCamerasAvailable
      | Some device \<Rightarrow>
          Inr ((if hasFlash (devices s device)
                then List.map_filter flashModeValue (supportedFlashModes (photoOutput s))
                else [])
               @ (if hasTorch (devices s device) then [''torch''] else [])))"

subsection \<open>Flash\<close>

text \<open>
  \<open>setFlashMode(flashMode:)\<close>, lines 478-502. Inside the \<open>do\<close> block only
  \<open>lockForConfiguration()\<close> can throw, and the \<open>catch\<close> turns that into
  \<open>invalidOperation\<close> before anything has been written. \<open>torchIsOn\<close> is the condition
  of line 488.
\<close>

definition torchIsOn :: "AVCaptureDevice \<Rightarrow> bool" where
  "torchIsOn device \<longleftrightarrow> hasTorch device \<and> isTorchAvailable device \<and> torchMode device = torch_on"

definition setFlashMode ::
  "FlashMode \<Rightarrow> CameraController \<Rightarrow> CameraControllerError option \<times> CameraController" where
  "setFlashMode m s =
     (case currentCamera s of
        None \<Rightarrow> (Some noCamerasAvailable, s)
      | Some dev \<Rightarrow>
          if m \<in> set (supportedFlashModes (photoOutput s)) then
            (let device = devices s dev in
             if lockSucceeds device then
               (let d1 = (if torchIsOn device
                          then device\<lparr>torchMode := torch_off\<rparr>
                          else device)
                in (None,
                    s\<lparr>devices := (devices s)(dev := d1),
                      flashMode := m,
                      photoOutput := (photoOutput s)\<lparr>photoSettingsForSceneMonitoring := Some m\<rparr>\<rparr>))
             else (Some invalidOperation, s))
          else (None, s))"

subsection \<open>Pinch gesture\<close>

text \<open>The nested function \<open>minMaxZoom(_:)\<close>, lines 597-599.\<close>

definition minMaxZoom :: "AVCaptureDevice \<Rightarrow> real \<Rightarrow> real" where
  "minMaxZoom device factor = max 1 (min factor (videoMaxZoomFactor device))"

text \<open>
  The nested function \<open>update(scale:)\<close>, lines 601-610: a failing
  \<open>lockForConfiguration()\<close> is printed and nothing is written.
\<close>

definition update_scale :: "device_id \<Rightarrow> real \<Rightarrow> CameraController \<Rightarrow> CameraController" where
  "update_scale dev factor s =
     (if lockSucceeds (devices s dev)
      then s\<lparr>devices := (devices s)(dev := (devices s dev)\<lparr>videoZoomFactor := factor\<rparr>)\<rparr>
      else s)"

text \<open>
  \<open>handlePinch(_:)\<close>, lines 594-621; the arguments are \<open>pinch.state\<close> and \<open>pinch.scale\<close>.
\<close>

definition handlePinch :: "GestureState \<Rightarrow> real \<Rightarrow> CameraController \<Rightarrow> CameraController" where
  "handlePinch state scale s =
     (case currentCamera s of
        None \<Rightarrow> s
      | Some dev \<Rightarrow>
          (case state of
             began \<Rightarrow> update_scale dev (minMaxZoom (devices s dev) scale) s
           | changed \<Rightarrow> update_scale dev (minMaxZoom (devices s dev) scale) s
           | ended \<Rightarrow> s\<lparr>controllerZoomFactor := videoZoomFactor (devices s dev)\<rparr>
           | _ \<Rightarrow> s))"

text \<open>A sequence of pinch events, delivered in order.\<close>

fun handlePinches :: "(GestureState \<times> real) list \<Rightarrow> CameraController \<Rightarrow> CameraController" where
  "handlePinches [] s = s"
| "handlePinches ((state, scale) # events) s = handlePinches events (handlePinch state scale s)"

section \<open>Examples of hardware and controller states\<close>

definition wideDevice :: "DevicePosition \<Rightarrow> AVCaptureDevice" where
  "wideDevice p =
     \<lparr>deviceType = builtInWideAngleCamera, position = p,
      videoZoomFactor = 1, videoMaxZoomFactor = 10,
      supportedSizes = [(4032, 3024), (1920, 1080)],
      focusMode = autoFocus, continuousAutoFocusSupported = True,
      exposureMode = autoExpose, continuousAutoExposureSupported = True,
      exposureTargetBias = 0, minExposureTargetBias = -8, maxExposureTargetBias = 8,
      whiteBalanceMode = autoWhiteBalance,
      supportedWhiteBalanceModes = [wb_locked, autoWhiteBalance, continuousAutoWhiteBalance],
      hasFlash = True, hasTorch = True, isTorchAvailable = True, torchMode = torch_off,
      lockSucceeds = True, inputCreatable = True, canAddInput = True\<rparr>"

definition tripleDevice :: AVCaptureDevice where
  "tripleDevice = (wideDevice position_back)\<lparr>deviceType := builtInTripleCamera\<rparr>"

text \<open>
  Device 0 is the rear wide-angle camera, device 1 the front camera, device 2 the rear
  triple camera.
\<close>

definition exampleDevices :: "device_id \<Rightarrow> AVCaptureDevice" where
  "exampleDevices =
     (\<lambda>i. wideDevice position_back)(1 := wideDevice position_front, 2 := tripleDevice)"

definition singleLensPhone :: Hardware where
  "singleLensPhone =
     \<lparr>defaultTripleBack = None, defaultWideBack = Some 0, defaultWideFront = Some 1,
      canAddOutput = True\<rparr>"

definition tripleLensPhone :: Hardware where
  "tripleLensPhone =
     \<lparr>defaultTripleBack = Some 2, defaultWideBack = Some 0, defaultWideFront = Some 1,
      canAddOutput = True\<rparr>"

definition rearOnlyPhone :: Hardware where
  "rearOnlyPhone =
     \<lparr>defaultTripleBack = None, defaultWideBack = Some 0, defaultWideFront = None,
      canAddOutput = True\<rparr>"

text \<open>The controller as its property initialisers leave it, before any call.\<close>

definition freshController :: CameraController where
  "freshController =
     \<lparr>captureSession = None,
      photoOutput = \<lparr>supportedFlashModes = [flash_off, flash_on, flash_auto],
                     isHighResolutionCaptureEnabled = False,
                     photoSettingsForSceneMonitoring = None,
                     captureRequests = []\<rparr>,
      photoCaptureCompletionBlock = None,
      sampleBufferCaptureCompletionBlock = None,
      frontCamera = None, rearCamera = None, currentCamera = None, cameraInput = None,
      flashMode = flash_off, controllerZoomFactor = 1,
      devices = exampleDevices, fulfilled = []\<rparr>"

text \<open>The controller after \<open>prepare(rear)\<close> on the phone with a single rear lens.\<close>

definition preparedController :: CameraController where
  "preparedController = snd (prepare singleLensPhone (Some rear) False freshController)"

text \<open>The controller after \<open>prepare(rear)\<close> on the phone with a triple rear camera.\<close>

definition preparedTripleController :: CameraController where
  "preparedTripleController = snd (prepare tripleLensPhone (Some rear) False freshController)"

text \<open>The controller after \<open>prepare(rear)\<close> on the phone without a front camera.\<close>

definition rearOnlyController :: CameraController where
  "rearOnlyController = snd (prepare rearOnlyPhone (Some rear) False freshController)"

text \<open>The prepared controller with the torch of the rear camera switched on.\<close>

definition torchLitController :: CameraController where
  "torchLitController =
     preparedController\<lparr>devices :=
       (devices preparedController)(0 := (devices preparedController 0)\<lparr>torchMode := torch_on\<rparr>)\<rparr>"

text \<open>
  The prepared controller with one still capture (completion 7) and one sample capture
  (completion 8) issued and not yet fulfilled.
\<close>

definition pendingController :: CameraController where
  "pendingController = captureSample 8 (captureImage 7 preparedController)"

section \<open>Verified properties\<close>

subsection \<open>Evaluation of the examples\<close>

lemmas example_defs =
  freshController_def singleLensPhone_def exampleDevices_def wideDevice_def tripleDevice_def

lemmas prepare_defs =
  prepare_def initializeCameraDevices_def initializeCameraInput_def startOutput_def
  configureCameraSettings_def newSession_def defaultRearCamera_def Let_def

lemma prepare_singleLensPhone:
  "prepare singleLensPhone (Some rear) False freshController =
     (None, freshController\<lparr>
        captureSession := Some \<lparr>isRunning = True, inputs = [0], photoOutputAdded = True,
                                sessionPreset = preset_high, openConfigurations = 0\<rparr>,
        rearCamera := Some 0, frontCamera := Some 1, currentCamera := Some 0,
        cameraInput := Some 0,
        devices := exampleDevices(0 := (wideDevice position_back)
                     \<lparr>focusMode := continuousAutoFocus, exposureMode := continuousAutoExposure\<rparr>)\<rparr>)"
  by (simp add: prepare_defs example_defs)

lemma preparedController_eq:
  "preparedController =
     freshController\<lparr>
        captureSession := Some \<lparr>isRunning = True, inputs = [0], photoOutputAdded = True,
                                sessionPreset = preset_high, openConfigurations = 0\<rparr>,
        rearCamera := Some 0, frontCamera := Some 1, currentCamera := Some 0,
        cameraInput := Some 0,
        devices := exampleDevices(0 := (wideDevice position_back)
                     \<lparr>focusMode := continuousAutoFocus, exposureMode := continuousAutoExposure\<rparr>)\<rparr>"
  by (simp add: preparedController_def prepare_singleLensPhone)

lemma prepare_tripleLensPhone:
  "prepare tripleLensPhone (Some rear) False freshController =
     (None, freshController\<lparr>
        captureSession := Some \<lparr>isRunning = True, inputs = [2], photoOutputAdded = True,
                                sessionPreset = preset_high, openConfigurations = 0\<rparr>,
        rearCamera := Some 2, frontCamera := Some 1, currentCamera := Some 2,
        cameraInput := Some 2,
        devices := exampleDevices(2 := tripleDevice
                     \<lparr>focusMode := continuousAutoFocus, exposureMode := continuousAutoExposure,
                      videoZoomFactor := 2\<rparr>)\<rparr>)"
  by (simp add: prepare_defs example_defs tripleLensPhone_def)

lemma preparedTripleController_eq:
  "preparedTripleController =
     freshController\<lparr>
        captureSession := Some \<lparr>isRunning = True, inputs = [2], photoOutputAdded = True,
                                sessionPreset = preset_high, openConfigurations = 0\<rparr>,
        rearCamera := Some 2, frontCamera := Some 1, currentCamera := Some 2,
        cameraInput := Some 2,
        devices := exampleDevices(2 := tripleDevice
                     \<lparr>focusMode := continuousAutoFocus, exposureMode := continuousAutoExposure,
                      videoZoomFactor := 2\<rparr>)\<rparr>"
  by (simp add: preparedTripleController_def prepare_tripleLensPhone)

subsection \<open>What a successful prepare leaves behind\<close>

lemma initializeCameraDevices_ok:
  "initializeCameraDevices hw p s = (None, s') \<Longrightarrow>
     rearCamera s' = defaultRearCamera hw
   \<and> currentCamera s' = (if p = rear then rearCamera s' else frontCamera s')
   \<and> currentCamera s' \<noteq> None
   \<and> devices s' = devices s \<and> captureSession s' = captureSession s"
  by (auto simp: initializeCameraDevices_def Let_def split: option.splits if_splits)

lemma initializeCameraInput_ok:
  "initializeCameraInput s = (None, s') \<Longrightarrow>
     rearCamera s' = rearCamera s \<and> currentCamera s' = currentCamera s \<and> frontCamera s' = frontCamera s
   \<and> devices s' = devices s"
  by (auto simp: initializeCameraInput_def Let_def split: option.splits if_splits)

lemma configureCameraSettings_cameras:
  "rearCamera (snd (configureCameraSettings s)) = rearCamera s
   \<and> currentCamera (snd (configureCameraSettings s)) = currentCamera s
   \<and> frontCamera (snd (configureCameraSettings s)) = frontCamera s"
  by (simp add: configureCameraSettings_def Let_def split: option.splits)

lemma configureCameraSettings_zoom:
  assumes "configureCameraSettings s = (None, s')" and "currentCamera s = Some cam"
  shows "videoZoomFactor (devices s' cam) =
           (if deviceType (devices s cam) = builtInTripleCamera then 2
            else videoZoomFactor (devices s cam))"
    and "deviceType (devices s' cam) = deviceType (devices s cam)"
  using assms
  by (auto simp: configureCameraSettings_def Let_def split: if_splits)

lemma startOutput_cameras:
  "rearCamera (snd (startOutput hw hr s)) = rearCamera s
   \<and> currentCamera (snd (startOutput hw hr s)) = currentCamera s
   \<and> frontCamera (snd (startOutput hw hr s)) = frontCamera s"
  by (simp add: startOutput_def Let_def configureCameraSettings_cameras)

lemma startOutput_zoom:
  assumes "startOutput hw hr s = (None, s')" and "currentCamera s = Some cam"
  shows "videoZoomFactor (devices s' cam) =
           (if deviceType (devices s cam) = builtInTripleCamera then 2
            else videoZoomFactor (devices s cam))"
    and "deviceType (devices s' cam) = deviceType (devices s cam)"
  using configureCameraSettings_zoom[OF assms(1)[unfolded startOutput_def Let_def], of cam] assms(2)
  by simp_all

lemma prepare_steps:
  assumes "prepare hw pos hr s = (None, s')"
  obtains s2 s3 where
    "initializeCameraDevices hw (case pos of None \<Rightarrow> rear | Some p \<Rightarrow> p)
       (s\<lparr>captureSession := Some (newSession hr)\<rparr>) = (None, s2)"
    "initializeCameraInput s2 = (None, s3)"
    "startOutput hw hr s3 = (None, s')"
proof -
  let ?p = "case pos of None \<Rightarrow> rear | Some p \<Rightarrow> p"
  let ?s1 = "s\<lparr>captureSession := Some (newSession hr)\<rparr>"
  obtain e1 s2 where i1: "initializeCameraDevices hw ?p ?s1 = (e1, s2)"
    by (cases "initializeCameraDevices hw ?p ?s1") auto
  obtain e2 s3 where i2: "initializeCameraInput s2 = (e2, s3)"
    by (cases "initializeCameraInput s2") auto
  from assms i1 have e1: "e1 = None"
    by (simp add: prepare_def Let_def split: option.splits)
  from assms i1 i2 e1 have e2: "e2 = None"
    by (simp add: prepare_def Let_def split: option.splits)
  from assms i1 i2 e1 e2 have so: "startOutput hw hr s3 = (None, s')"
    by (simp add: prepare_def Let_def)
  from i1 i2 so e1 e2 that show thesis by simp
qed

lemma prepare_rear_selected:
  assumes "prepare hw pos hr s = (None, s')"
  shows "rearCamera s' = defaultRearCamera hw"
    and "currentCamera s' = (if (case pos of None \<Rightarrow> rear | Some p \<Rightarrow> p) = rear then rearCamera s' else frontCamera s')"
    and "currentCamera s' \<noteq> None"
proof -
  from assms(1) obtain s2 s3 where
    i1: "initializeCameraDevices hw (case pos of None \<Rightarrow> rear | Some p \<Rightarrow> p)
       (s\<lparr>captureSession := Some (newSession hr)\<rparr>) = (None, s2)" and
    i2: "initializeCameraInput s2 = (None, s3)" and
    so: "startOutput hw hr s3 = (None, s')"
    by (rule prepare_steps)
  note a = initializeCameraDevices_ok[OF i1] and b = initializeCameraInput_ok[OF i2]
  from startOutput_cameras[of hw hr s3] so
  have c: "rearCamera s' = rearCamera s3" "currentCamera s' = currentCamera s3" "frontCamera s' = frontCamera s3"
    by simp_all
  show "rearCamera s' = defaultRearCamera hw" using a b c by simp
  show "currentCamera s' = (if (case pos of None \<Rightarrow> rear | Some p \<Rightarrow> p) = rear then rearCamera s' else frontCamera s')"
    using a b c by simp
  from a have "currentCamera s2 \<noteq> None" by blast
  with b c show "currentCamera s' \<noteq> None" by metis
qed

lemma prepare_zoom:
  assumes "prepare hw pos hr s = (None, s')" and "currentCamera s' = Some cam"
  shows "videoZoomFactor (devices s' cam) =
           (if deviceType (devices s cam) = builtInTripleCamera then 2
            else videoZoomFactor (devices s cam))"
    and "deviceType (devices s' cam) = deviceType (devices s cam)"
proof -
  from assms(1) obtain s2 s3 where
    i1: "initializeCameraDevices hw (case pos of None \<Rightarrow> rear | Some p \<Rightarrow> p)
       (s\<lparr>captureSession := Some (newSession hr)\<rparr>) = (None, s2)" and
    i2: "initializeCameraInput s2 = (None, s3)" and
    so: "startOutput hw hr s3 = (None, s')"
    by (rule prepare_steps)
  note a = initializeCameraDevices_ok[OF i1] and b = initializeCameraInput_ok[OF i2]
  from startOutput_cameras[of hw hr s3] so assms(2)
  have c: "currentCamera s3 = Some cam"
    by simp
  from startOutput_zoom[OF so c] a b
  show "videoZoomFactor (devices s' cam) =
           (if deviceType (devices s cam) = builtInTripleCamera then 2
            else videoZoomFactor (devices s cam))"
    and "deviceType (devices s' cam) = deviceType (devices s cam)"
    by simp_all
qed

lemma prepare_no_rear:
  assumes "defaultRearCamera hw = None"
  shows "fst (prepare hw None hr s) = Some noCamerasAvailable"
  using assms
  by (simp add: prepare_def initializeCameraDevices_def Let_def split: option.splits)

lemma prepare_result:
  "fst (prepare hw pos hr s) =
     (case (if (case pos of None \<Rightarrow> rear | Some p \<Rightarrow> p) = rear then defaultRearCamera hw
            else (case defaultWideFront hw of Some f \<Rightarrow> Some f | None \<Rightarrow> frontCamera s)) of
        None \<Rightarrow> Some noCamerasAvailable
      | Some cam \<Rightarrow>
          if inputCreatable (devices s cam)
          then (if lockSucceeds (devices s cam) then None else Some avFoundationError)
          else Some noCamerasAvailable)"
proof (cases "case pos of None \<Rightarrow> rear | Some p \<Rightarrow> p")
  case front
  then show ?thesis
    by (simp add: prepare_def initializeCameraDevices_def initializeCameraInput_def
          startOutput_def configureCameraSettings_def Let_def split: option.splits)
next
  case rear
  then show ?thesis
    by (simp add: prepare_def initializeCameraDevices_def initializeCameraInput_def
          startOutput_def configureCameraSettings_def Let_def split: option.splits)
qed

lemma prepare_frontCamera:
  "frontCamera (snd (prepare hw pos hr s)) =
     (case defaultWideFront hw of Some f \<Rightarrow> Some f | None \<Rightarrow> frontCamera s)"
  by (simp add: prepare_def initializeCameraDevices_def initializeCameraInput_def startOutput_def
        configureCameraSettings_def Let_def split: option.splits)

lemma prepare_hardware_answers:
  "inputCreatable (devices (snd (prepare hw pos hr s)) d) = inputCreatable (devices s d)
   \<and> lockSucceeds (devices (snd (prepare hw pos hr s)) d) = lockSucceeds (devices s d)"
  by (simp add: prepare_def initializeCameraDevices_def initializeCameraInput_def startOutput_def
        configureCameraSettings_def Let_def split: option.splits)

lemma stop_keeps_cameras:
  "frontCamera (stop s) = frontCamera s \<and> devices (stop s) = devices s"
  by (simp add: stop_def)

subsection \<open>Capture without a running session\<close>

lemma runningSession_None_iff:
  "runningSession s = None \<longleftrightarrow>
     (captureSession s = None \<or> (\<exists>cs. captureSession s = Some cs \<and> isRunning cs = False))"
  by (auto simp: runningSession_def split: option.splits)

text \<open>
  Claim C8. A capture request, \<open>captureImage\<close> or \<open>captureSample\<close>, issued while the
  capture session is absent or not running invokes its completion at once with
  \<open>captureSessionIsMissing\<close> and no image, issues no hardware capture, and changes nothing
  else in the controller.
\<close>

theorem capture_without_running_session:
  assumes "captureSession s = None \<or> (\<exists>cs. captureSession s = Some cs \<and> isRunning cs = False)"
  shows "captureImage c s = s\<lparr>fulfilled := fulfilled s @ [(c, None, Some captureSessionIsMissing)]\<rparr>
       \<and> captureSample c s = s\<lparr>fulfilled := fulfilled s @ [(c, None, Some captureSessionIsMissing)]\<rparr>
       \<and> captureRequests (photoOutput (captureImage c s)) = captureRequests (photoOutput s)
       \<and> captureRequests (photoOutput (captureSample c s)) = captureRequests (photoOutput s)"
proof -
  from assms have none: "runningSession s = None"
    by (simp add: runningSession_None_iff)
  have img: "captureImage c s = s\<lparr>fulfilled := fulfilled s @ [(c, None, Some captureSessionIsMissing)]\<rparr>"
    by (simp add: captureImage_def none invoke_def)
  have smp: "captureSample c s = s\<lparr>fulfilled := fulfilled s @ [(c, None, Some captureSessionIsMissing)]\<rparr>"
    by (simp add: captureSample_def none invoke_def)
  show ?thesis
    by (simp add: img smp)
qed

theorem capture_without_running_session_witness:
  "captureSession freshController = None
   \<and> captureImage 7 freshController
       = freshController\<lparr>fulfilled := [(7, None, Some captureSessionIsMissing)]\<rparr>
   \<and> captureRequests (photoOutput (captureImage 7 freshController)) = []
   \<and> captureSession (stop preparedController)
       = Some \<lparr>isRunning = False, inputs = [0], photoOutputAdded = True,
               sessionPreset = preset_high, openConfigurations = 0\<rparr>
   \<and> fulfilled (captureSample 8 (stop preparedController))
       = [(8, None, Some captureSessionIsMissing)]
   \<and> sampleBufferCaptureCompletionBlock (captureSample 8 (stop preparedController)) = None"
proof -
  have absent: "captureSession freshController = None"
    by (simp add: freshController_def)
  have stopped: "captureSession (stop preparedController)
       = Some \<lparr>isRunning = False, inputs = [0], photoOutputAdded = True,
               sessionPreset = preset_high, openConfigurations = 0\<rparr>"
    by (simp add: stop_def preparedController_eq freshController_def)
  have a: "captureSession freshController = None
             \<or> (\<exists>cs. captureSession freshController = Some cs \<and> isRunning cs = False)"
    using absent by simp
  have b: "captureSession (stop preparedController) = None
             \<or> (\<exists>cs. captureSession (stop preparedController) = Some cs \<and> isRunning cs = False)"
    using stopped by simp
  have old: "fulfilled freshController = []" "captureRequests (photoOutput freshController) = []"
    "fulfilled (stop preparedController) = []"
    "sampleBufferCaptureCompletionBlock (stop preparedController) = None"
    by (simp_all add: stop_def preparedController_eq freshController_def)
  from capture_without_running_session[OF a, of 7] capture_without_running_session[OF b, of 8]
    absent stopped old
  show ?thesis by simp
qed

subsection \<open>The default camera position\<close>

text \<open>
  Claim C10. \<open>prepare\<close> called with no camera position (nil) behaves as \<open>prepare\<close> called
  with \<open>rear\<close>: when it succeeds the current camera is the rear camera that the device
  lookup gave, and on a phone without a rear camera it fails with \<open>noCamerasAvailable\<close>
  instead of taking the front camera.
\<close>

theorem prepare_nil_selects_rear:
  "prepare hw None hr s = prepare hw (Some rear) hr s
   \<and> (fst (prepare hw None hr s) = None \<longrightarrow>
        currentCamera (snd (prepare hw None hr s)) = defaultRearCamera hw
      \<and> currentCamera (snd (prepare hw None hr s)) = rearCamera (snd (prepare hw None hr s))
      \<and> currentCamera (snd (prepare hw None hr s)) \<noteq> None)
   \<and> (defaultRearCamera hw = None \<longrightarrow> fst (prepare hw None hr s) = Some noCamerasAvailable)"
proof -
  have same: "prepare hw None hr s = prepare hw (Some rear) hr s"
    by (simp add: prepare_def)
  have sel: "currentCamera (snd (prepare hw None hr s)) = defaultRearCamera hw
      \<and> currentCamera (snd (prepare hw None hr s)) = rearCamera (snd (prepare hw None hr s))
      \<and> currentCamera (snd (prepare hw None hr s)) \<noteq> None"
    if ok: "fst (prepare hw None hr s) = None"
  proof -
    from ok have eq: "prepare hw None hr s = (None, snd (prepare hw None hr s))"
      by (simp add: prod_eq_iff)
    from prepare_rear_selected[OF eq] show ?thesis by simp
  qed
  from same sel prepare_no_rear show ?thesis by blast
qed

theorem prepare_nil_selects_rear_witness:
  "fst (prepare singleLensPhone None False freshController) = None
   \<and> currentCamera (snd (prepare singleLensPhone None False freshController)) = Some 0
   \<and> position (devices (snd (prepare singleLensPhone None False freshController)) 0) = position_back"
proof -
  have ok: "fst (prepare singleLensPhone None False freshController) = None"
    by (simp add: prepare_defs example_defs)
  have rear: "defaultRearCamera singleLensPhone = Some 0"
    by (simp add: defaultRearCamera_def singleLensPhone_def)
  have pos: "position (devices (snd (prepare singleLensPhone None False freshController)) 0) = position_back"
    by (simp add: prepare_defs example_defs)
  from prepare_nil_selects_rear[of singleLensPhone False freshController] ok
  have "currentCamera (snd (prepare singleLensPhone None False freshController))
          = defaultRearCamera singleLensPhone"
    by blast
  with ok rear pos show ?thesis by metis
qed

subsection \<open>The baseline zoom factor\<close>

text \<open>
  Claim C6. After a successful \<open>prepare(rear)\<close> the current camera is the rear device
  that the lookup selected, and, that device having been at its default zoom factor 1
  before the call, its zoom factor is 2 exactly when it is a \<open>builtInTripleCamera\<close>; on
  any other device type the factor stays 1.
\<close>

theorem prepare_rear_baseline_zoom:
  assumes "prepare hw (Some rear) hr s = (None, s')"
      and "defaultRearCamera hw = Some cam"
      and "videoZoomFactor (devices s cam) = 1"
  shows "currentCamera s' = Some cam
       \<and> (videoZoomFactor (devices s' cam) = 2 \<longleftrightarrow> deviceType (devices s' cam) = builtInTripleCamera)
       \<and> (deviceType (devices s' cam) \<noteq> builtInTripleCamera \<longrightarrow> videoZoomFactor (devices s' cam) = 1)"
proof -
  from prepare_rear_selected[OF assms(1)] assms(2)
  have cur: "currentCamera s' = Some cam"
    by simp
  from prepare_zoom[OF assms(1) cur] assms(3)
  have "videoZoomFactor (devices s' cam) =
          (if deviceType (devices s' cam) = builtInTripleCamera then 2 else 1)"
    by simp
  with cur show ?thesis by simp
qed

theorem prepare_rear_baseline_zoom_witness:
  "prepare singleLensPhone (Some rear) False freshController = (None, preparedController)
   \<and> deviceType (devices preparedController 0) = builtInWideAngleCamera
   \<and> videoZoomFactor (devices preparedController 0) = 1
   \<and> prepare tripleLensPhone (Some rear) False freshController = (None, preparedTripleController)
   \<and> deviceType (devices preparedTripleController 2) = builtInTripleCamera
   \<and> videoZoomFactor (devices preparedTripleController 2) = 2"
proof -
  have single: "prepare singleLensPhone (Some rear) False freshController = (None, preparedController)"
    by (simp add: preparedController_def prepare_singleLensPhone)
  have triple: "prepare tripleLensPhone (Some rear) False freshController = (None, preparedTripleController)"
    by (simp add: preparedTripleController_def prepare_tripleLensPhone)
  have r0: "defaultRearCamera singleLensPhone = Some 0" and r2: "defaultRearCamera tripleLensPhone = Some 2"
    by (simp_all add: defaultRearCamera_def singleLensPhone_def tripleLensPhone_def)
  have z0: "videoZoomFactor (devices freshController 0) = 1"
    and z2: "videoZoomFactor (devices freshController 2) = 1"
    by (simp_all add: example_defs)
  have t0: "deviceType (devices preparedController 0) = builtInWideAngleCamera"
    by (simp add: preparedController_eq example_defs)
  have t2: "deviceType (devices preparedTripleController 2) = builtInTripleCamera"
    by (simp add: preparedTripleController_eq example_defs)
  from prepare_rear_baseline_zoom[OF single r0 z0] t0
  have w0: "videoZoomFactor (devices preparedController 0) = 1"
    by simp
  from prepare_rear_baseline_zoom[OF triple r2 z2] t2
  have w2: "videoZoomFactor (devices preparedTripleController 2) = 2"
    by simp
  from single triple t0 t2 w0 w2 show ?thesis by simp
qed

subsection \<open>Getters\<close>

text \<open>
  Claim C9. With a device selected, every getter returns the value read from that
  device: exposure compensation, its range, exposure mode, white-balance mode, supported
  white-balance modes, supported picture sizes and supported flash modes. The only
  getter that can throw is \<open>getSupportedFlashModes\<close>, and it throws only when no device
  is selected (the error is \<open>noCamerasAvailable\<close>); the others are not throwing methods
  and return a value in every state.
\<close>

theorem getters_succeed_with_device:
  "(currentCamera s = Some dev \<longrightarrow>
       getExposureCompensation s = exposureTargetBias (devices s dev)
     \<and> getExposureCompensationRange s
         = [minExposureTargetBias (devices s dev), maxExposureTargetBias (devices s dev)]
     \<and> getExposureMode exposureRawValue s = exposureRawValue (exposureMode (devices s dev))
     \<and> getWhiteBalanceMode whiteBalanceRawValue s
         = whiteBalanceRawValue (whiteBalanceMode (devices s dev))
     \<and> getSupportedWhiteBalanceModes whiteBalanceRawValue s
         = map whiteBalanceRawValue (supportedWhiteBalanceModes (devices s dev))
     \<and> getSupportedPictureSizes s
         = map (\<lambda>(w, h). [(''width'', w), (''height'', h)]) (supportedSizes (devices s dev))
     \<and> (\<exists>modes. getSupportedFlashModes s = Inr modes))
   \<and> (getSupportedFlashModes s = Inl e \<longrightarrow> currentCamera s = None \<and> e = noCamerasAvailable)"
  by (auto simp: getExposureCompensation_def getExposureCompensationRange_def getExposureMode_def
        getWhiteBalanceMode_def getSupportedWhiteBalanceModes_def getSupportedPictureSizes_def
        getSupportedFlashModes_def split: option.splits)

theorem getters_succeed_with_device_witness:
  "currentCamera preparedController = Some 0
   \<and> getExposureCompensation preparedController = 0
   \<and> getExposureCompensationRange preparedController = [-8, 8]
   \<and> getSupportedPictureSizes preparedController
       = [[(''width'', 4032), (''height'', 3024)], [(''width'', 1920), (''height'', 1080)]]
   \<and> getSupportedFlashModes preparedController = Inr [''off'', ''on'', ''auto'', ''torch'']
   \<and> currentCamera freshController = None
   \<and> getSupportedFlashModes freshController = Inl noCamerasAvailable"
proof -
  have cur: "currentCamera preparedController = Some 0"
    by (simp add: preparedController_eq)
  have dev: "exposureTargetBias (devices preparedController 0) = 0"
    "minExposureTargetBias (devices preparedController 0) = -8"
    "maxExposureTargetBias (devices preparedController 0) = 8"
    "supportedSizes (devices preparedController 0) = [(4032, 3024), (1920, 1080)]"
    by (simp_all add: preparedController_eq example_defs)
  have flash: "getSupportedFlashModes preparedController = Inr [''off'', ''on'', ''auto'', ''torch'']"
    by (simp add: getSupportedFlashModes_def preparedController_eq example_defs
          List.map_filter_simps flashModeValue_def)
  have none: "getSupportedFlashModes freshController = Inl noCamerasAvailable"
    by (simp add: getSupportedFlashModes_def freshController_def)
  from getters_succeed_with_device[of preparedController 0 "\<lambda>m. ''''" "\<lambda>m. ''''" noCamerasAvailable]
    getters_succeed_with_device[of freshController 0 "\<lambda>m. ''''" "\<lambda>m. ''''" noCamerasAvailable]
    cur dev flash none
  show ?thesis by simp
qed

subsection \<open>Flash mode\<close>

text \<open>
  Claim C7. With a device selected: for a flash mode \<open>m\<close> in the supported set of the photo
  output (and the configuration lock granted), \<open>setFlashMode m\<close> returns without error,
  stores \<open>m\<close> as the flash mode, so that the next still capture is issued with \<open>m\<close>, and
  the torch is off afterwards if it was on; for \<open>m\<close> outside the supported set
  \<open>setFlashMode m\<close> returns without error and leaves the whole controller, the stored
  flash mode and every device included, as it was.
\<close>

theorem setFlashMode_supported_and_unsupported:
  assumes "currentCamera s = Some dev"
  shows "(m \<in> set (supportedFlashModes (photoOutput s)) \<and> lockSucceeds (devices s dev) \<longrightarrow>
            fst (setFlashMode m s) = None
          \<and> flashMode (snd (setFlashMode m s)) = m
          \<and> (runningSession s \<noteq> None \<longrightarrow>
               captureRequests (photoOutput (captureImage c (snd (setFlashMode m s))))
                 = captureRequests (photoOutput s) @ [m])
          \<and> (torchIsOn (devices s dev) \<longrightarrow>
               torchMode (devices (snd (setFlashMode m s)) dev) = torch_off)
          \<and> \<not> torchIsOn (devices (snd (setFlashMode m s)) dev))
       \<and> (m \<notin> set (supportedFlashModes (photoOutput s)) \<longrightarrow> setFlashMode m s = (None, s))"
proof -
  have unsupported: "setFlashMode m s = (None, s)"
    if "m \<notin> set (supportedFlashModes (photoOutput s))"
    using that assms by (simp add: setFlashMode_def)
  have supported:
    "fst (setFlashMode m s) = None
     \<and> flashMode (snd (setFlashMode m s)) = m
     \<and> (runningSession s \<noteq> None \<longrightarrow>
          captureRequests (photoOutput (captureImage c (snd (setFlashMode m s))))
            = captureRequests (photoOutput s) @ [m])
     \<and> (torchIsOn (devices s dev) \<longrightarrow>
          torchMode (devices (snd (setFlashMode m s)) dev) = torch_off)
     \<and> \<not> torchIsOn (devices (snd (setFlashMode m s)) dev)"
    if sup: "m \<in> set (supportedFlashModes (photoOutput s))" and lock: "lockSucceeds (devices s dev)"
  proof -
    let ?d = "devices s dev"
    let ?d1 = "if torchIsOn ?d then ?d\<lparr>torchMode := torch_off\<rparr> else ?d"
    have eq: "setFlashMode m s =
                (None, s\<lparr>devices := (devices s)(dev := ?d1), flashMode := m,
                          photoOutput := (photoOutput s)\<lparr>photoSettingsForSceneMonitoring := Some m\<rparr>\<rparr>)"
      using assms sup lock by (simp add: setFlashMode_def Let_def)
    have run: "runningSession (snd (setFlashMode m s)) = runningSession s"
      by (simp add: eq runningSession_def)
    have cap: "captureRequests (photoOutput (captureImage c (snd (setFlashMode m s))))
                 = captureRequests (photoOutput s) @ [m]"
      if "runningSession s \<noteq> None"
      using that run by (auto simp: captureImage_def eq split: option.splits)
    have torch: "\<not> torchIsOn (devices (snd (setFlashMode m s)) dev)"
      by (simp add: eq torchIsOn_def)
    have off: "torchMode (devices (snd (setFlashMode m s)) dev) = torch_off"
      if "torchIsOn ?d"
      using that by (simp add: eq)
    from eq cap torch off show ?thesis by simp
  qed
  from unsupported supported show ?thesis by blast
qed

theorem setFlashMode_supported_and_unsupported_witness:
  "currentCamera torchLitController = Some 0
   \<and> torchMode (devices torchLitController 0) = torch_on
   \<and> fst (setFlashMode flash_on torchLitController) = None
   \<and> flashMode (snd (setFlashMode flash_on torchLitController)) = flash_on
   \<and> torchMode (devices (snd (setFlashMode flash_on torchLitController)) 0) = torch_off
   \<and> captureRequests (photoOutput (captureImage 7 (snd (setFlashMode flash_on torchLitController))))
       = [flash_on]
   \<and> setFlashMode flash_on
        (torchLitController\<lparr>photoOutput :=
           (photoOutput torchLitController)\<lparr>supportedFlashModes := [flash_off]\<rparr>\<rparr>)
       = (None, torchLitController\<lparr>photoOutput :=
           (photoOutput torchLitController)\<lparr>supportedFlashModes := [flash_off]\<rparr>\<rparr>)"
proof -
  let ?u = "torchLitController\<lparr>photoOutput :=
              (photoOutput torchLitController)\<lparr>supportedFlashModes := [flash_off]\<rparr>\<rparr>"
  have cur: "currentCamera torchLitController = Some 0" "currentCamera ?u = Some 0"
    by (simp_all add: torchLitController_def preparedController_eq)
  have pre: "flash_on \<in> set (supportedFlashModes (photoOutput torchLitController))"
    "lockSucceeds (devices torchLitController 0)"
    "torchIsOn (devices torchLitController 0)"
    "torchMode (devices torchLitController 0) = torch_on"
    "runningSession torchLitController \<noteq> None"
    "captureRequests (photoOutput torchLitController) = []"
    by (simp_all add: torchLitController_def preparedController_eq example_defs torchIsOn_def
          runningSession_def)
  have un: "flash_on \<notin> set (supportedFlashModes (photoOutput ?u))"
    by simp
  from setFlashMode_supported_and_unsupported[OF cur(1), of flash_on 7]
    setFlashMode_supported_and_unsupported[OF cur(2), of flash_on 7] cur pre un
  show ?thesis by simp
qed

subsection \<open>Re-entrant still capture\<close>

lemma delegate_invokes_slot:
  "photoOutput_didFinishProcessingPhoto fo photo error s =
     (case photoCaptureCompletionBlock s of
        None \<Rightarrow> s
      | Some c \<Rightarrow> s\<lparr>fulfilled := fulfilled s @ [(c, deliveredResult fo photo error)]\<rparr>)"
  by (simp add: photoOutput_didFinishProcessingPhoto_def invokeOptional_def invoke_def
        deliveredResult_def split: option.splits)

lemma captureImage_running:
  assumes "runningSession s \<noteq> None"
  shows "captureImage c s =
           s\<lparr>photoOutput := (photoOutput s)\<lparr>captureRequests :=
                               captureRequests (photoOutput s) @ [flashMode s]\<rparr>,
             photoCaptureCompletionBlock := Some c\<rparr>"
  using assms by (auto simp: captureImage_def split: option.splits)

lemma captureImage_keeps_running:
  assumes "runningSession s \<noteq> None"
  shows "runningSession (captureImage c s) \<noteq> None"
  using assms by (simp add: captureImage_running runningSession_def)

text \<open>
  Claim C1, as the code has it. The controller has one completion slot for still photos.
  A second \<open>captureImage\<close> issued on a running session while the first is pending
  overwrites the slot with the second completion and invokes no completion; the slot is
  not cleared by the delegate, so each of the two photo callbacks that follow invokes the
  second completion, and the first completion is not invoked by them.
\<close>

theorem second_capture_overwrites_slot:
  assumes "runningSession s \<noteq> None"
  shows "photoCaptureCompletionBlock (captureImage c1 s) = Some c1
       \<and> photoCaptureCompletionBlock (captureImage c2 (captureImage c1 s)) = Some c2
       \<and> fulfilled (captureImage c2 (captureImage c1 s)) = fulfilled s
       \<and> fulfilled (photoOutput_didFinishProcessingPhoto fo p2 e2
                     (photoOutput_didFinishProcessingPhoto fo p1 e1
                       (captureImage c2 (captureImage c1 s))))
           = fulfilled s @ [(c2, deliveredResult fo p1 e1), (c2, deliveredResult fo p2 e2)]"
proof -
  let ?s1 = "captureImage c1 s"
  let ?s2 = "captureImage c2 ?s1"
  have r1: "runningSession ?s1 \<noteq> None"
    using assms by (rule captureImage_keeps_running)
  have slot1: "photoCaptureCompletionBlock ?s1 = Some c1" and log1: "fulfilled ?s1 = fulfilled s"
    by (simp_all add: captureImage_running[OF assms])
  have slot2: "photoCaptureCompletionBlock ?s2 = Some c2" and log2: "fulfilled ?s2 = fulfilled ?s1"
    by (simp_all add: captureImage_running[OF r1])
  have "fulfilled (photoOutput_didFinishProcessingPhoto fo p2 e2
                     (photoOutput_didFinishProcessingPhoto fo p1 e1 ?s2))
          = fulfilled ?s2 @ [(c2, deliveredResult fo p1 e1), (c2, deliveredResult fo p2 e2)]"
    by (simp add: delegate_invokes_slot slot2)
  with slot1 slot2 log1 log2 show ?thesis by simp
qed

theorem second_capture_overwrites_slot_witness:
  "runningSession preparedController \<noteq> None
   \<and> photoCaptureCompletionBlock (captureImage 2 (captureImage 1 preparedController)) = Some 2
   \<and> fulfilled (photoOutput_didFinishProcessingPhoto (\<lambda>i. i) (Some 20) None
                 (photoOutput_didFinishProcessingPhoto (\<lambda>i. i) (Some 10) None
                   (captureImage 2 (captureImage 1 preparedController))))
       = [(2, Some 10, None), (2, Some 20, None)]"
proof -
  have run: "runningSession preparedController \<noteq> None"
    by (simp add: runningSession_def preparedController_eq)
  have log: "fulfilled preparedController = []"
    by (simp add: preparedController_eq freshController_def)
  from second_capture_overwrites_slot[OF run, of 1 2 "\<lambda>i. i" "Some 20" None "Some 10" None] run log
  show ?thesis by (simp add: deliveredResult_def)
qed

text \<open>
  The claim as stated fails: with completions 1 and 2 issued in this order and two photos
  delivered, completion 1 is replaced in the slot and never invoked, and completion 2 is
  invoked twice.
\<close>

theorem reentrant_capture_counterexample:
  "photoCaptureCompletionBlock (captureImage 1 preparedController) = Some 1
   \<and> photoCaptureCompletionBlock (captureImage 2 (captureImage 1 preparedController)) = Some 2
   \<and> fulfilled (photoOutput_didFinishProcessingPhoto (\<lambda>i. i) (Some 20) None
                 (photoOutput_didFinishProcessingPhoto (\<lambda>i. i) (Some 10) None
                   (captureImage 2 (captureImage 1 preparedController))))
       = [(2, Some 10, None), (2, Some 20, None)]"
  by (simp add: captureImage_def runningSession_def preparedController_eq freshController_def
        photoOutput_didFinishProcessingPhoto_def invokeOptional_def invoke_def)

subsection \<open>Preparing twice\<close>

text \<open>
  Claim C2, as the code has it. \<open>prepare\<close> never fails with
  \<open>captureSessionAlreadyRunning\<close>. When a \<open>prepare\<close> has succeeded, a second \<open>prepare\<close>
  for the same position on the same phone succeeds as well, with or without a \<open>stop\<close>
  in between.
\<close>

theorem prepare_again_succeeds:
  "fst (prepare hw pos hr s) \<noteq> Some captureSessionAlreadyRunning
   \<and> (fst (prepare hw pos hr s) = None \<longrightarrow>
        fst (prepare hw pos hr' (snd (prepare hw pos hr s))) = None
      \<and> fst (prepare hw pos hr' (stop (snd (prepare hw pos hr s)))) = None)"
proof -
  let ?s' = "snd (prepare hw pos hr s)"
  have never: "fst (prepare hw pos hr s) \<noteq> Some captureSessionAlreadyRunning"
    by (simp add: prepare_result split: option.splits)
  have again: "fst (prepare hw pos hr' ?s') = fst (prepare hw pos hr s)"
    by (simp add: prepare_result[of hw pos hr' ?s'] prepare_result[of hw pos hr s]
          prepare_frontCamera prepare_hardware_answers split: option.splits)
  have after_stop: "fst (prepare hw pos hr' (stop ?s')) = fst (prepare hw pos hr s)"
    by (simp add: prepare_result[of hw pos hr' "stop ?s'"] prepare_result[of hw pos hr s]
          stop_keeps_cameras prepare_frontCamera prepare_hardware_answers split: option.splits)
  from never again after_stop show ?thesis by simp
qed

theorem prepare_again_succeeds_witness:
  "fst (prepare singleLensPhone (Some rear) False freshController) = None
   \<and> fst (prepare singleLensPhone (Some rear) False preparedController) = None
   \<and> fst (prepare singleLensPhone (Some rear) False (stop preparedController)) = None"
proof -
  have first: "fst (prepare singleLensPhone (Some rear) False freshController) = None"
    by (simp add: prepare_singleLensPhone)
  from prepare_again_succeeds[of singleLensPhone "Some rear" False freshController False] first
  show ?thesis by (simp add: preparedController_def)
qed

text \<open>
  The claim as stated fails: on the prepared controller, whose session is running, a
  second \<open>prepare\<close> reports success.
\<close>

theorem prepare_twice_counterexample:
  "fst (prepare singleLensPhone (Some rear) False freshController) = None
   \<and> map_option isRunning (captureSession preparedController) = Some True
   \<and> fst (prepare singleLensPhone (Some rear) False preparedController) = None"
  by (simp add: preparedController_eq prepare_defs example_defs)

subsection \<open>Stopping with pending captures\<close>

text \<open>
  Claim C3, as the code has it. \<open>stop\<close> halts the session and nothing else: it invokes no
  completion, and a pending still-photo or sample completion stays stored as it was.
\<close>

theorem stop_leaves_pending_captures:
  "fulfilled (stop s) = fulfilled s
   \<and> photoCaptureCompletionBlock (stop s) = photoCaptureCompletionBlock s
   \<and> sampleBufferCaptureCompletionBlock (stop s) = sampleBufferCaptureCompletionBlock s
   \<and> runningSession (stop s) = None"
  by (simp add: stop_def runningSession_def split: option.splits)

theorem stop_leaves_pending_captures_witness:
  "photoCaptureCompletionBlock pendingController = Some 7
   \<and> photoCaptureCompletionBlock (stop pendingController) = Some 7
   \<and> fulfilled (stop pendingController) = fulfilled pendingController"
proof -
  have "photoCaptureCompletionBlock pendingController = Some 7"
    by (simp add: pendingController_def captureSample_def captureImage_def runningSession_def
          preparedController_eq freshController_def)
  with stop_leaves_pending_captures[of pendingController] show ?thesis by simp
qed

text \<open>
  The claim as stated fails: with completions 7 and 8 pending, \<open>stop\<close> fulfils neither.
\<close>

theorem stop_with_pending_counterexample:
  "photoCaptureCompletionBlock pendingController = Some 7
   \<and> sampleBufferCaptureCompletionBlock pendingController = Some 8
   \<and> fulfilled pendingController = []
   \<and> fulfilled (stop pendingController) = []
   \<and> photoCaptureCompletionBlock (stop pendingController) = Some 7
   \<and> sampleBufferCaptureCompletionBlock (stop pendingController) = Some 8"
  by (simp add: stop_def pendingController_def captureSample_def captureImage_def runningSession_def
        preparedController_eq freshController_def)

subsection \<open>Pinch to zoom\<close>

text \<open>
  Claim C4 at its own scenario. After the gesture began(1.0), changed(1.5), ended, the
  device zoom factor is 1.5 and the controller has stored 1.5; the next gesture
  began(1.0), changed(1.2) sets the device zoom factor to 1.2, the clamped scale alone,
  where the claim has 1.8.
\<close>

theorem pinch_second_gesture_restarts_from_scale:
  "videoZoomFactor (devices
     (handlePinches [(began, 1), (changed, 3/2), (ended, 3/2)] preparedController) 0) = 3/2
   \<and> controllerZoomFactor
       (handlePinches [(began, 1), (changed, 3/2), (ended, 3/2)] preparedController) = 3/2
   \<and> videoZoomFactor (devices
       (handlePinches [(began, 1), (changed, 3/2), (ended, 3/2), (began, 1), (changed, 6/5)]
          preparedController) 0) = 6/5"
  by (simp add: handlePinch_def update_scale_def minMaxZoom_def preparedController_eq
        freshController_def exampleDevices_def wideDevice_def)

subsection \<open>The configuration bracket of switchCameras\<close>

text \<open>
  Claim C5 at a phone without a front camera. \<open>prepare(rear)\<close> succeeds and leaves no
  configuration open; \<open>switchCameras\<close> then throws \<open>invalidOperation\<close> from
  \<open>switchToFrontCamera\<close>, after \<open>beginConfiguration\<close> and without
  \<open>commitConfiguration\<close>: one configuration stays open.
\<close>

theorem switchCameras_throw_leaves_configuration_open:
  "fst (prepare rearOnlyPhone (Some rear) False freshController) = None
   \<and> map_option openConfigurations (captureSession rearOnlyController) = Some 0
   \<and> fst (switchCameras rearOnlyController) = Some invalidOperation
   \<and> map_option openConfigurations (captureSession (snd (switchCameras rearOnlyController))) = Some 1"
  by (simp add: rearOnlyController_def rearOnlyPhone_def prepare_defs example_defs switchCameras_def
        runningSession_def onSession_def beginConfiguration_def switchToFrontCamera_def)

end
